theory Spec2Isabelle
  imports Main "HOL-Library.Word"
begin

unbundle bit_operations_syntax

section \<open>JavaScript values used by the FT817 class\<close>

type_synonym byte = "8 word"

text \<open>
  The exceptions the class can raise: \<open>SyntaxError\<close> (thrown by the constructor),
  \<open>TypeError\<close> (a method called on an undefined port or parser, a re-framer
  built with a length below 1, a null buffer written) and \<open>FormatError\<close> (the
  conversion helpers, as the specification names their failure).
\<close>

datatype error = SyntaxError | TypeError | FormatError

text \<open>
  The values a frequency variable holds: a number, a string, or \<open>NaN\<close>. Numbers
  are modelled by the integers, which is exact for the safe integers of JavaScript
  (magnitude below \<open>2^53\<close>); fractions and infinities are not modelled. A string
  is a sequence of code units below 256.
\<close>

datatype js = JNum int | JStr string | JNaN

text \<open>
  The values on which the model of a number is exact: beyond the safe integers
  \<open>toString\<close> and \<open>parseInt\<close> round, which the integers do not.
\<close>

definition exactlyModelled :: "js \<Rightarrow> bool" where
  "exactlyModelled v = (case v of JNum n \<Rightarrow> \<bar>n\<bar> \<le> 9007199254740991 | _ \<Rightarrow> True)"

text \<open>A value that is either the sentinel \<open>false\<close> or a proper result.\<close>

datatype 'a or_false = JFalse | Value 'a

subsection \<open>Number.prototype.toString, padStart, charAt, substring\<close>

definition digit_char :: "nat \<Rightarrow> char" where
  "digit_char n = ''0123456789'' ! n"

fun digits :: "nat \<Rightarrow> string" where
  "digits n = (if n < 10 then [digit_char n] else digits (n div 10) @ [digit_char (n mod 10)])"

declare digits.simps [simp del]

definition toString_int :: "int \<Rightarrow> string" where
  "toString_int n = (if n < 0 then CHR ''-'' # digits (nat (- n)) else digits (nat n))"

fun toString :: "js \<Rightarrow> string" where
  "toString (JNum n) = toString_int n"
| "toString (JStr s) = s"
| "toString JNaN = ''NaN''"

definition padStart :: "string \<Rightarrow> nat \<Rightarrow> char \<Rightarrow> string" where
  "padStart s n c = replicate (n - length s) c @ s"

definition charAt :: "string \<Rightarrow> nat \<Rightarrow> string" where
  "charAt s i = (if i < length s then [s ! i] else [])"

definition substring :: "string \<Rightarrow> nat \<Rightarrow> nat \<Rightarrow> string" where
  "substring s a b = take (max a b - min a b) (drop (min a b) s)"

definition substring_from :: "string \<Rightarrow> nat \<Rightarrow> string" where
  "substring_from s a = drop a s"

subsection \<open>isNaN and parseInt\<close>

text \<open>
  \<open>isNaN(v)\<close> converts \<open>v\<close> to a number first. A string converts to a number
  when, with white space trimmed, it is empty or a numeric literal: a signed decimal
  literal (digits, an optional fraction, an optional exponent, or \<open>Infinity\<close>) or
  an unsigned binary, octal or hexadecimal integer literal. Of the white space of
  JavaScript, the code units below 256 are the six ASCII ones and the no-break space.
\<close>

definition isWhiteSpace :: "char \<Rightarrow> bool" where
  "isWhiteSpace c =
     (c \<in> set [CHR 0x09, CHR 0x0A, CHR 0x0B, CHR 0x0C, CHR 0x0D, CHR '' '', CHR 0xA0])"

definition isDecimalDigit :: "char \<Rightarrow> bool" where
  "isDecimalDigit c = (c \<in> set ''0123456789'')"

definition isHexDigit :: "char \<Rightarrow> bool" where
  "isHexDigit c = (c \<in> set ''0123456789abcdefABCDEF'')"

definition trim :: "string \<Rightarrow> string" where
  "trim s = rev (dropWhile isWhiteSpace (rev (dropWhile isWhiteSpace s)))"

definition stripSign :: "string \<Rightarrow> string" where
  "stripSign s = (case s of [] \<Rightarrow> [] | c # r \<Rightarrow> if c = CHR ''+'' \<or> c = CHR ''-'' then r else s)"

definition isDecimalDigits :: "string \<Rightarrow> bool" where
  "isDecimalDigits s = (list_all isDecimalDigit s \<and> 0 < length s)"

definition isExponentPart_opt :: "string \<Rightarrow> bool" where
  "isExponentPart_opt e =
     (case e of [] \<Rightarrow> True
      | c # r \<Rightarrow> (c = CHR ''e'' \<or> c = CHR ''E'') \<and> isDecimalDigits (stripSign r))"

definition isStrUnsignedDecimalLiteral :: "string \<Rightarrow> bool" where
  "isStrUnsignedDecimalLiteral u =
     (if u = ''Infinity'' then True
      else
        let ip = takeWhile isDecimalDigit u; r = dropWhile isDecimalDigit u in
        case r of
          [] \<Rightarrow> 0 < length ip
        | c # r' \<Rightarrow>
            if c = CHR ''.''
            then (0 < length ip \<or> 0 < length (takeWhile isDecimalDigit r'))
                 \<and> isExponentPart_opt (dropWhile isDecimalDigit r')
            else 0 < length ip \<and> isExponentPart_opt r)"

definition isNonDecimalIntegerLiteral :: "string \<Rightarrow> bool" where
  "isNonDecimalIntegerLiteral u =
     (case u of
        z # x # r \<Rightarrow>
          z = CHR ''0'' \<and> 0 < length r \<and>
          (if x = CHR ''x'' \<or> x = CHR ''X'' then list_all isHexDigit r
           else if x = CHR ''o'' \<or> x = CHR ''O'' then list_all (\<lambda>c. c \<in> set ''01234567'') r
           else if x = CHR ''b'' \<or> x = CHR ''B'' then list_all (\<lambda>c. c \<in> set ''01'') r
           else False)
      | _ \<Rightarrow> False)"

definition stringIsNumeric :: "string \<Rightarrow> bool" where
  "stringIsNumeric s =
     (let t = trim s in
      t = [] \<or> isStrUnsignedDecimalLiteral (stripSign t) \<or> isNonDecimalIntegerLiteral t)"

fun isNaN :: "js \<Rightarrow> bool" where
  "isNaN (JNum n) = False"
| "isNaN (JStr s) = (\<not> stringIsNumeric s)"
| "isNaN JNaN = True"

text \<open>
  \<open>parseInt(v)\<close> with no radix: the argument is converted to a string, leading
  white space and one sign are dropped, a \<open>0x\<close> prefix selects radix 16, and the
  longest prefix of digits of the radix is the value; with no digit the result is NaN.
\<close>

definition hexValue :: "char \<Rightarrow> nat option" where
  "hexValue c =
     map_of
       [(CHR ''0'', 0), (CHR ''1'', 1), (CHR ''2'', 2), (CHR ''3'', 3),
        (CHR ''4'', 4), (CHR ''5'', 5), (CHR ''6'', 6), (CHR ''7'', 7),
        (CHR ''8'', 8), (CHR ''9'', 9), (CHR ''a'', 10), (CHR ''b'', 11),
        (CHR ''c'', 12), (CHR ''d'', 13), (CHR ''e'', 14), (CHR ''f'', 15),
        (CHR ''A'', 10), (CHR ''B'', 11), (CHR ''C'', 12), (CHR ''D'', 13),
        (CHR ''E'', 14), (CHR ''F'', 15)] c"

definition decimalValue :: "char \<Rightarrow> nat option" where
  "decimalValue c =
     map_of
       [(CHR ''0'', 0), (CHR ''1'', 1), (CHR ''2'', 2), (CHR ''3'', 3),
        (CHR ''4'', 4), (CHR ''5'', 5), (CHR ''6'', 6), (CHR ''7'', 7),
        (CHR ''8'', 8), (CHR ''9'', 9)] c"

fun radixValue :: "nat \<Rightarrow> nat \<Rightarrow> string \<Rightarrow> nat" where
  "radixValue radix acc [] = acc"
| "radixValue radix acc (c # cs) = radixValue radix (acc * radix + (case hexValue c of None \<Rightarrow> 0 | Some d \<Rightarrow> d)) cs"

definition parseInt_string :: "string \<Rightarrow> js" where
  "parseInt_string input =
     (let s = dropWhile isWhiteSpace input;
          sign = (if take 1 s = ''-'' then - 1 else 1 :: int);
          s = stripSign s;
          hex = (take 2 s = ''0x'' \<or> take 2 s = ''0X'');
          s = (if hex then drop 2 s else s);
          z = takeWhile (if hex then isHexDigit else isDecimalDigit) s
      in if z = [] then JNaN else JNum (sign * int (radixValue (if hex then 16 else 10) 0 z)))"

fun parseInt :: "js \<Rightarrow> js" where
  "parseInt (JNum n) = JNum n"
| "parseInt (JStr s) = parseInt_string s"
| "parseInt JNaN = JNaN"

subsection \<open>Buffer.prototype.toString('hex')\<close>

definition hex_char :: "nat \<Rightarrow> char" where
  "hex_char n = ''0123456789abcdef'' ! n"

definition hex_of_byte :: "byte \<Rightarrow> string" where
  "hex_of_byte b = [hex_char (unat b div 16), hex_char (unat b mod 16)]"

definition toString_hex :: "byte list \<Rightarrow> string" where
  "toString_hex buf = concat (map hex_of_byte buf)"

section \<open>Collaborators of the class\<close>

text \<open>
  The class requires four modules of the repository whose files are not among the
  sources: \<open>./conversions\<close>, \<open>./frequencies\<close>, \<open>./modes\<close> and
  \<open>./ranByJest\<close>. The two lookup tables (\<open>isValidRxFrequency\<close>,
  \<open>getModeNameById\<close>) and the answer of \<open>ranByJest()\<close> are parameters of the
  operations that consult them. The two conversion helpers are modelled below.
\<close>

text \<open>
  Modelled from the spec: \<open>decToHex\<close> of \<open>./conversions\<close> is missing. The
  specification describes it as interpreting a two-character decimal digit string as a
  BCD pair packed into one byte, the tens digit in the high nibble and the units digit
  in the low nibble, failing with \<open>FormatError\<close> if either character is not a
  decimal digit. An argument that is not two characters long fails the same way.
\<close>

definition decToHex :: "string \<Rightarrow> error + byte" where
  "decToHex dec =
     (case dec of
        [t, u] \<Rightarrow>
          (case decimalValue t of
             None \<Rightarrow> Inl FormatError
           | Some tens \<Rightarrow>
               (case decimalValue u of
                  None \<Rightarrow> Inl FormatError
                | Some units \<Rightarrow> Inr (of_nat (16 * tens + units))))
      | _ \<Rightarrow> Inl FormatError)"

text \<open>
  Modelled from the spec: \<open>hexToBin\<close> of \<open>./conversions\<close> is missing. The
  specification describes it as parsing a hex-encoded byte and exposing it for bitwise
  inspection, failing with \<open>FormatError\<close> on malformed hex or on any input not
  representing exactly one byte. The sentinel \<open>false\<close> is such an input.
\<close>

definition hexToBin :: "string or_false \<Rightarrow> error + byte" where
  "hexToBin resp =
     (case resp of
        JFalse \<Rightarrow> Inl FormatError
      | Value [h, l] \<Rightarrow>
          (case hexValue h of
             None \<Rightarrow> Inl FormatError
           | Some hi \<Rightarrow>
               (case hexValue l of
                  None \<Rightarrow> Inl FormatError
                | Some lo \<Rightarrow> Inr (of_nat (16 * hi + lo))))
      | Value _ \<Rightarrow> Inl FormatError)"

section \<open>The session\<close>

text \<open>
  What the session does to its serial port, its re-framer and the timer is recorded in
  the ghost field \<open>history\<close>, oldest call first: \<open>Unpipe\<close> and \<open>Pipe n\<close> are
  \<open>port.unpipe()\<close> and \<open>port.pipe(new ByteLength({length: n}))\<close>,
  \<open>Write buf\<close> is \<open>port.write(buf)\<close>, \<open>SetTimeout ms\<close> arms the timer,
  \<open>Once n\<close> registers the one-shot \<open>'data'\<close> listener on the re-framer of
  chunk length \<open>n\<close>, and \<open>ClearInterval\<close> is the call the listener makes when a
  chunk arrives.
\<close>

datatype event = Unpipe | Pipe nat | SetTimeout nat | Write "byte list" | Once nat | ClearInterval

record SerialPort =
  path :: string
  baudRate :: nat
  piped :: "nat list"

text \<open>
  The fields of the class. \<open>port\<close> and \<open>parser\<close> stay undefined (\<open>None\<close>)
  when the constructor runs under Jest; \<open>parser\<close> holds the chunk length of the
  \<open>ByteLength\<close> re-framer it refers to, and \<open>piped\<close> lists the chunk lengths
  of the re-framers the port currently feeds.
\<close>

record FT817 =
  serial_port :: "string option"
  serial_speed :: nat
  executableCommand :: "byte list option"
  port :: "SerialPort option"
  parser :: "nat option"
  history :: "event list"

definition FT817_new :: "bool \<Rightarrow> string option \<Rightarrow> nat option \<Rightarrow> error + FT817" where
  "FT817_new ranByJest serial_port_arg serial_speed_arg =
     (let speed = (case serial_speed_arg of None \<Rightarrow> 9600 | Some v \<Rightarrow> v);
          this = \<lparr>serial_port = serial_port_arg, serial_speed = speed,
                  executableCommand = None, port = None, parser = None, history = []\<rparr>
      in case serial_port_arg of
           None \<Rightarrow> if ranByJest then Inr this else Inl SyntaxError
         | Some dev \<Rightarrow>
             if dev = [] \<and> \<not> ranByJest then Inl SyntaxError
             else if ranByJest then Inr this
             else Inr (this\<lparr>port := Some \<lparr>path = dev, baudRate = speed, piped = [1]\<rparr>,
                             parser := Some 1, history := [Pipe 1]\<rparr>))"

text \<open>
  \<open>setResponseLength\<close>: \<open>port.unpipe()\<close> detaches every re-framer, then a new
  \<open>ByteLength\<close> is built and attached. The \<open>ByteLength\<close> constructor refuses a
  length below 1 with a \<open>TypeError\<close>. An exception ends the modelled run: no
  successor state is returned with it.
\<close>

definition setResponseLength :: "FT817 \<Rightarrow> nat \<Rightarrow> error + FT817" where
  "setResponseLength this byte_length =
     (case port this of
        None \<Rightarrow> Inl TypeError
      | Some p \<Rightarrow>
          if byte_length < 1 then Inl TypeError
          else Inr (this\<lparr>port := Some (p\<lparr>piped := [byte_length]\<rparr>),
                          parser := Some byte_length,
                          history := history this @ [Unpipe, Pipe byte_length]\<rparr>))"

definition setCommand :: "FT817 \<Rightarrow> byte list \<Rightarrow> FT817" where
  "setCommand this command = this\<lparr>executableCommand := Some command\<rparr>"

definition getCommand :: "FT817 \<Rightarrow> byte list option" where
  "getCommand this = executableCommand this"

text \<open>
  \<open>executeCommand\<close>: the promise arms a 1000 ms timer, writes the command and
  listens once for a chunk from the re-framer. \<open>incoming\<close> are the bytes that reach
  the re-framer before the timer fires. A re-framer of chunk length \<open>n\<close> emits its
  first chunk, the first \<open>n\<close> bytes, once \<open>n\<close> bytes have arrived; the listener
  then resolves the promise with the chunk rendered in hexadecimal. Otherwise the timer
  resolves it with \<open>false\<close>.
\<close>

definition executeCommand :: "FT817 \<Rightarrow> byte list \<Rightarrow> error + (string or_false \<times> FT817)" where
  "executeCommand this incoming =
     (let this1 = this\<lparr>history := history this @ [SetTimeout 1000]\<rparr> in
      case port this1 of
        None \<Rightarrow> Inl TypeError
      | Some p \<Rightarrow>
          (case getCommand this1 of
             None \<Rightarrow> Inl TypeError
           | Some command \<Rightarrow>
               (let this2 = this1\<lparr>history := history this1 @ [Write command]\<rparr> in
                case parser this2 of
                  None \<Rightarrow> Inl TypeError
                | Some n \<Rightarrow>
                    (let this3 = this2\<lparr>history := history this2 @ [Once n]\<rparr> in
                     if n \<le> length incoming
                     then Inr (Value (toString_hex (take n incoming)),
                               this3\<lparr>history := history this3 @ [ClearInterval]\<rparr>)
                     else Inr (JFalse, this3)))))"

text \<open>
  \<open>execute(executable_command, response_length = 1)\<close>; the \<open>console.log\<close> line
  has no effect on the session. An omitted reply length is \<open>None\<close>.
\<close>

definition execute ::
  "FT817 \<Rightarrow> byte list \<Rightarrow> byte list \<Rightarrow> nat option \<Rightarrow> error + (string or_false \<times> FT817)" where
  "execute this incoming executable_command response_length_arg =
     (let response_length = (case response_length_arg of None \<Rightarrow> 1 | Some n \<Rightarrow> n);
          this1 = setCommand this executable_command
      in case setResponseLength this1 response_length of
           Inl e \<Rightarrow> Inl e
         | Inr this2 \<Rightarrow> executeCommand this2 incoming)"

subsection \<open>An exchange in two steps\<close>

text \<open>
  \<open>execute\<close> is an async function: it runs up to its \<open>await\<close> when it is
  called, and its promise settles later, on the first chunk or on the timer. Between
  the two another call may run. The two steps are modelled apart. The listener of an
  exchange sits on one \<open>ByteLength\<close> object; re-framers are told apart by their
  ordinal, the number of \<open>Pipe\<close> calls made up to their attachment, and the port
  feeds only the one attached last.
\<close>

record exchange =
  reframer :: nat
  chunk_length :: nat

fun isPipe :: "event \<Rightarrow> bool" where
  "isPipe (Pipe n) = True"
| "isPipe e = False"

definition reframers :: "event list \<Rightarrow> nat" where
  "reframers h = length (filter isPipe h)"

text \<open>
  The promise executor of \<open>executeCommand\<close> (lines 73 to 82), which runs at the
  call: it arms the timer, writes the command and registers the listener.
\<close>

definition executor :: "FT817 \<Rightarrow> error + (exchange \<times> FT817)" where
  "executor this =
     (let this1 = this\<lparr>history := history this @ [SetTimeout 1000]\<rparr> in
      case port this1 of
        None \<Rightarrow> Inl TypeError
      | Some p \<Rightarrow>
          (case getCommand this1 of
             None \<Rightarrow> Inl TypeError
           | Some command \<Rightarrow>
               (let this2 = this1\<lparr>history := history this1 @ [Write command]\<rparr> in
                case parser this2 of
                  None \<Rightarrow> Inl TypeError
                | Some n \<Rightarrow>
                    Inr (\<lparr>reframer = reframers (history this2), chunk_length = n\<rparr>,
                         this2\<lparr>history := history this2 @ [Once n]\<rparr>))))"

text \<open>
  The promise settles. \<open>incoming\<close> are the bytes the port delivers to its attached
  re-framer before the timer of this exchange fires; the listener hears the first chunk
  only if its own re-framer is still the attached one. Otherwise, or with too few bytes,
  the timer resolves the promise with \<open>false\<close>.
\<close>

definition settle :: "exchange \<Rightarrow> FT817 \<Rightarrow> byte list \<Rightarrow> string or_false \<times> FT817" where
  "settle x this incoming =
     (if reframer x = reframers (history this) \<and> chunk_length x \<le> length incoming
      then (Value (toString_hex (take (chunk_length x) incoming)),
            this\<lparr>history := history this @ [ClearInterval]\<rparr>)
      else (JFalse, this))"

text \<open>\<open>execute\<close> up to its \<open>await\<close>.\<close>

definition execute_call ::
  "FT817 \<Rightarrow> byte list \<Rightarrow> nat option \<Rightarrow> error + (exchange \<times> FT817)" where
  "execute_call this executable_command response_length_arg =
     (let response_length = (case response_length_arg of None \<Rightarrow> 1 | Some n \<Rightarrow> n);
          this1 = setCommand this executable_command
      in case setResponseLength this1 response_length of
           Inl e \<Rightarrow> Inl e
         | Inr this2 \<Rightarrow> executor this2)"

section \<open>The operations\<close>

text \<open>
  \<open>setFrequency(frequency = '14575000')\<close>; an omitted argument is \<open>None\<close>. The
  array literal evaluates its four \<open>decToHex\<close> calls in order before \<open>execute\<close>
  is called, so a failing conversion leaves the session untouched.
\<close>

definition setFrequency ::
  "(js \<Rightarrow> bool) \<Rightarrow> FT817 \<Rightarrow> byte list \<Rightarrow> js option \<Rightarrow> error + (string or_false \<times> FT817)" where
  "setFrequency isValidRxFrequency this incoming frequency_arg =
     (let frequency = (case frequency_arg of None \<Rightarrow> JStr ''14575000'' | Some v \<Rightarrow> v);
          frequency = (if isNaN frequency then parseInt frequency else frequency)
      in if isValidRxFrequency frequency then
           (let frequency = toString frequency;
                frequency = padStart frequency 8 CHR ''0'';
                f = frequency
            in case decToHex (charAt f 0 @ charAt f 1) of
                 Inl e \<Rightarrow> Inl e
               | Inr b0 \<Rightarrow>
               (case decToHex (charAt f 2 @ charAt f 3) of
                 Inl e \<Rightarrow> Inl e
               | Inr b1 \<Rightarrow>
               (case decToHex (charAt f 4 @ charAt f 5) of
                 Inl e \<Rightarrow> Inl e
               | Inr b2 \<Rightarrow>
               (case decToHex (charAt f 6 @ charAt f 7) of
                 Inl e \<Rightarrow> Inl e
               | Inr b3 \<Rightarrow>
               (case execute this incoming [b0, b1, b2, b3, 0x01] None of
                 Inl e \<Rightarrow> Inl e
               | Inr (resp, this') \<Rightarrow> Inr (Value frequency, this'))))))
         else Inr (JFalse, this))"

record FreqAndMode =
  frequency :: string
  mhzs :: js
  khzs :: js
  hzs :: js
  mode_id :: string
  mode_name :: string

text \<open>\<open>!resp\<close> holds for \<open>false\<close> and for the empty string.\<close>

definition getFreqAndMode ::
  "(string \<Rightarrow> string) \<Rightarrow> FT817 \<Rightarrow> byte list \<Rightarrow> error + (FreqAndMode or_false \<times> FT817)" where
  "getFreqAndMode getModeNameById this incoming =
     (case execute this incoming [0x00, 0x00, 0x00, 0x00, 0x03] (Some 5) of
        Inl e \<Rightarrow> Inl e
      | Inr (resp, this') \<Rightarrow>
          (case resp of
             JFalse \<Rightarrow> Inr (JFalse, this')
           | Value r \<Rightarrow>
               if r = [] then Inr (JFalse, this')
               else
                 (let mode_id = substring_from r 8;
                      mode_name = getModeNameById mode_id;
                      freq_full = substring r 0 8;
                      mhzs = parseInt (JStr (substring freq_full 0 3));
                      khzs = parseInt (JStr (substring freq_full 3 6));
                      hzs = parseInt (JStr (substring freq_full 6 8))
                  in Inr (Value \<lparr>frequency = freq_full, mhzs = mhzs, khzs = khzs, hzs = hzs,
                                   mode_id = mode_id, mode_name = mode_name\<rparr>, this'))))"

record ReceiverStatus =
  smeter_reading :: string
  squelched :: bool

definition getReceiverStatus ::
  "FT817 \<Rightarrow> byte list \<Rightarrow> error + (ReceiverStatus or_false \<times> FT817)" where
  "getReceiverStatus this incoming =
     (case execute this incoming [0x00, 0x00, 0x00, 0x00, 0xE7] (Some 1) of
        Inl e \<Rightarrow> Inl e
      | Inr (resp, this') \<Rightarrow>
          (case hexToBin resp of
             Inl e \<Rightarrow> Inl e
           | Inr b \<Rightarrow>
               (let squelched = (if b AND 0x80 \<noteq> 0 then True else False);
                    s = uint (b AND 0x0F);
                    smeter_reading =
                      (if s \<le> 9 then ''S'' @ toString_int s
                       else ''S9+'' @ toString_int ((s - 9) * 10) @ ''dB'')
                in Inr (Value \<lparr>smeter_reading = smeter_reading, squelched = squelched\<rparr>,
                        this'))))"

record TransmitterStatus =
  pttActive :: bool
  highSWR :: bool
  splitModeOn :: bool

definition getTransmitterStatus ::
  "FT817 \<Rightarrow> byte list \<Rightarrow> error + (TransmitterStatus or_false \<times> FT817)" where
  "getTransmitterStatus this incoming =
     (case execute this incoming [0x00, 0x00, 0x00, 0x00, 0xF7] (Some 1) of
        Inl e \<Rightarrow> Inl e
      | Inr (resp, this') \<Rightarrow>
          (case hexToBin resp of
             Inl e \<Rightarrow> Inl e
           | Inr b \<Rightarrow>
               (let pttActive = (if b AND 0x80 \<noteq> 0 then False else True);
                    highSWR = (if b AND 0x40 \<noteq> 0 then True else False);
                    splitModeOn = (if b AND 0x20 \<noteq> 0 then True else False)
                in Inr (Value \<lparr>pttActive = pttActive, highSWR = highSWR,
                                 splitModeOn = splitModeOn\<rparr>, this'))))"

subsection \<open>What the status operations do with the response\<close>



subsection \<open>A session and a validity table to run the operations on\<close>

text \<open>
  The session \<open>new FT817('/dev/ttyUSB0')\<close> yields outside Jest, used to run the
  operations on concrete inputs.
\<close>

definition ttyUSB0 :: FT817 where
  "ttyUSB0 =
     \<lparr>serial_port = Some ''/dev/ttyUSB0'', serial_speed = 9600, executableCommand = None,
      port = Some \<lparr>path = ''/dev/ttyUSB0'', baudRate = 9600, piped = [1]\<rparr>,
      parser = Some 1, history = [Pipe 1]\<rparr>"


lemma FT817_new_ttyUSB0: "FT817_new False (Some ''/dev/ttyUSB0'') None = Inr ttyUSB0"
  by (simp add: FT817_new_def ttyUSB0_def)

section \<open>Auxiliary facts\<close>

subsection \<open>One exchange on a connected session\<close>

lemma execute_connected:
  assumes "port this = Some p" and "0 < n"
  shows "execute this incoming command (Some n) =
           Inr (if n \<le> length incoming then Value (toString_hex (take n incoming)) else JFalse,
                this\<lparr>executableCommand := Some command,
                     port := Some (p\<lparr>piped := [n]\<rparr>),
                     parser := Some n,
                     history := history this @
                       [Unpipe, Pipe n, SetTimeout 1000, Write command, Once n] @
                       (if n \<le> length incoming then [ClearInterval] else [])\<rparr>)"
  using assms
  by (simp add: execute_def setCommand_def setResponseLength_def executeCommand_def getCommand_def)

lemma execute_default:
  "execute this incoming command None = execute this incoming command (Some 1)"
  by (simp add: execute_def)

lemma execute_no_reply:
  assumes "port this \<noteq> None" and "0 < n" and "length incoming < n"
  shows "\<exists>this'. execute this incoming command (Some n) = Inr (JFalse, this')"
proof -
  from assms(1) obtain p where p: "port this = Some p" by auto
  show ?thesis using assms(3) by (simp add: execute_connected [OF p assms(2)])
qed

lemma execute_history:
  assumes "port this \<noteq> None" and "0 < n"
  shows "\<exists>resp this'. execute this incoming command (Some n) = Inr (resp, this') \<and>
           executableCommand this' = Some command \<and> parser this' = Some n \<and>
           port this' \<noteq> None \<and>
           history this' = history this @
              [Unpipe, Pipe n, SetTimeout 1000, Write command, Once n] @
              (if n \<le> length incoming then [ClearInterval] else [])"
proof -
  from assms obtain p where p: "port this = Some p" by auto
  show ?thesis by (simp add: execute_connected [OF p assms(2)])
qed

subsection \<open>The two steps of an exchange\<close>

text \<open>
  An exchange that no other call interrupts is the call followed at once by the
  settling of its promise.
\<close>

lemma executeCommand_settles:
  "executeCommand this incoming =
     (case executor this of
        Inl e \<Rightarrow> Inl e
      | Inr (x, this1) \<Rightarrow> Inr (settle x this1 incoming))"
  by (simp add: executeCommand_def executor_def settle_def reframers_def Let_def
        split: option.splits)

lemma execute_settles:
  "execute this incoming command response_length_arg =
     (case execute_call this command response_length_arg of
        Inl e \<Rightarrow> Inl e
      | Inr (x, this1) \<Rightarrow> Inr (settle x this1 incoming))"
  by (simp add: execute_def execute_call_def executeCommand_settles Let_def split: sum.splits)

lemma execute_call_connected:
  assumes "port this = Some p" and "0 < n"
  shows "execute_call this command (Some n) =
           Inr (\<lparr>reframer = Suc (reframers (history this)), chunk_length = n\<rparr>,
                this\<lparr>executableCommand := Some command,
                     port := Some (p\<lparr>piped := [n]\<rparr>),
                     parser := Some n,
                     history := history this @
                       [Unpipe, Pipe n, SetTimeout 1000, Write command, Once n]\<rparr>)"
  using assms
  by (simp add: execute_call_def setCommand_def setResponseLength_def executor_def getCommand_def
        reframers_def)

subsection \<open>Decimal digits, BCD bytes and their hexadecimal rendering\<close>

lemma upt_10: "[0 ..< 10] = [0, 1, 2, 3, 4, 5, 6, 7, 8, 9]"
  by (simp add: upt_rec)

lemma upt_16: "[0 ..< 16] = [0, 1, 2, 3, 4, 5, 6, 7, 8, 9, 10, 11, 12, 13, 14, 15]"
  by (simp add: upt_rec)

text \<open>Two functions that agree on a tabulated range agree at each index below its end.\<close>

lemma tabulated: "n < k \<Longrightarrow> map f [0 ..< k] = map g [0 ..< k] \<Longrightarrow> f n = g n"
  by (metis add_0 nth_map_upt minus_nat.diff_0)

lemma decimalValue_digit_char: "n < 10 \<Longrightarrow> decimalValue (digit_char n) = Some n"
  by (erule tabulated) (simp add: upt_10 decimalValue_def digit_char_def)

lemma hex_char_digit_char: "n < 10 \<Longrightarrow> hex_char n = digit_char n"
  by (erule tabulated) (simp add: upt_10 hex_char_def digit_char_def)

lemma unat_bcd: "a < 10 \<Longrightarrow> c < 10 \<Longrightarrow> unat (of_nat (16 * a + c) :: byte) = 16 * a + c"
  by (simp only: unat_of_nat) simp

lemma decToHex_digit_chars:
  "a < 10 \<Longrightarrow> c < 10 \<Longrightarrow> decToHex [digit_char a, digit_char c] = Inr (of_nat (16 * a + c))"
  by (simp only: decToHex_def list.case decimalValue_digit_char option.case)

lemma hex_of_byte_bcd:
  assumes "a < 10" and "c < 10"
  shows "hex_of_byte (of_nat (16 * a + c)) = [digit_char a, digit_char c]"
proof -
  have "(16 * a + c) div 16 = a" and "(16 * a + c) mod 16 = c" using assms by simp_all
  then show ?thesis
    using assms by (simp only: hex_of_byte_def unat_bcd hex_char_digit_char)
qed

lemma digits_padded:
  "n < 10 ^ Suc k \<Longrightarrow>
     padStart (digits n) (Suc k) CHR ''0'' = map (\<lambda>i. digit_char (n div 10 ^ i mod 10)) (rev [0 ..< Suc k])"
proof (induction k arbitrary: n)
  case 0
  then show ?case by (simp add: digits.simps [of n] padStart_def)
next
  case (Suc k)
  show ?case
  proof (cases "n < 10")
    case True
    then have "\<And>i. 0 < i \<Longrightarrow> n div 10 ^ i = 0"
      by (metis div_less less_le_trans one_le_numeral power_increasing power_one_right One_nat_def Suc_leI)
    then have "map (\<lambda>i. digit_char (n div 10 ^ i mod 10)) (rev [Suc 0 ..< Suc (Suc k)])
                 = map (\<lambda>i. CHR ''0'') (rev [Suc 0 ..< Suc (Suc k)])"
      by (intro map_cong [OF refl]) (simp add: digit_char_def del: upt_Suc)
    then have z: "map (\<lambda>i. digit_char (n div 10 ^ i mod 10)) (rev [Suc 0 ..< Suc (Suc k)])
                 = replicate (Suc k) CHR ''0''"
      by (simp add: map_replicate_const del: upt_Suc)
    have "[0 ..< Suc (Suc k)] = 0 # [Suc 0 ..< Suc (Suc k)]" by (simp add: upt_rec)
    then have "map (\<lambda>i. digit_char (n div 10 ^ i mod 10)) (rev [0 ..< Suc (Suc k)])
                 = replicate (Suc k) CHR ''0'' @ [digit_char n]"
      using z True by (simp del: upt_Suc)
    then show ?thesis using True by (simp add: digits.simps [of n] padStart_def del: upt_Suc)
  next
    case False
    then have "n div 10 < 10 ^ Suc k" using Suc.prems by (simp add: less_mult_imp_div_less)
    from Suc.IH [OF this]
    have ih: "padStart (digits (n div 10)) (Suc k) CHR ''0''
                = map (\<lambda>i. digit_char (n div 10 div 10 ^ i mod 10)) (rev [0 ..< Suc k])" .
    have shift: "map (\<lambda>i. digit_char (n div 10 ^ i mod 10)) (rev [Suc 0 ..< Suc (Suc k)])
                 = map (\<lambda>i. digit_char (n div 10 div 10 ^ i mod 10)) (rev [0 ..< Suc k])"
      by (simp add: map_Suc_upt [symmetric] rev_map div_mult2_eq del: upt_Suc)
    have "[0 ..< Suc (Suc k)] = 0 # [Suc 0 ..< Suc (Suc k)]" by (simp add: upt_rec)
    then have "map (\<lambda>i. digit_char (n div 10 ^ i mod 10)) (rev [0 ..< Suc (Suc k)])
                 = map (\<lambda>i. digit_char (n div 10 div 10 ^ i mod 10)) (rev [0 ..< Suc k]) @ [digit_char (n mod 10)]"
      using shift by (simp del: upt_Suc)
    moreover have "padStart (digits n) (Suc (Suc k)) CHR ''0''
                 = padStart (digits (n div 10)) (Suc k) CHR ''0'' @ [digit_char (n mod 10)]"
      using False by (simp add: digits.simps [of n] padStart_def)
    ultimately show ?thesis using ih by simp
  qed
qed

lemma rev_upt_8: "rev [0 ..< Suc 7] = [7, 6, 5, 4, 3, 2, 1, 0]"
  by (simp add: eval_nat_numeral)

lemma padStart_digits_8:
  assumes "n < 100000000"
  shows "padStart (digits n) 8 CHR ''0'' =
           [digit_char (n div 10000000 mod 10), digit_char (n div 1000000 mod 10),
            digit_char (n div 100000 mod 10), digit_char (n div 10000 mod 10),
            digit_char (n div 1000 mod 10), digit_char (n div 100 mod 10),
            digit_char (n div 10 mod 10), digit_char (n mod 10)]"
proof -
  have "n < 10 ^ Suc 7" using assms by simp
  from digits_padded [OF this] show ?thesis
    unfolding rev_upt_8 by simp
qed

lemma setFrequency_digits:
  assumes "isValidRxFrequency v" and "\<not> isNaN v"
    and "padStart (toString v) 8 CHR ''0'' =
           [digit_char a7, digit_char a6, digit_char a5, digit_char a4,
            digit_char a3, digit_char a2, digit_char a1, digit_char a0]"
    and "a7 < 10" "a6 < 10" "a5 < 10" "a4 < 10" "a3 < 10" "a2 < 10" "a1 < 10" "a0 < 10"
  shows "setFrequency isValidRxFrequency this incoming (Some v) =
           (case execute this incoming
                   [of_nat (16 * a7 + a6), of_nat (16 * a5 + a4),
                    of_nat (16 * a3 + a2), of_nat (16 * a1 + a0), 0x01] None of
              Inl e \<Rightarrow> Inl e
            | Inr (resp, this') \<Rightarrow> Inr (Value (padStart (toString v) 8 CHR ''0''), this'))"
  using assms
  by (simp add: setFrequency_def charAt_def decToHex_digit_chars cong: sum.case_cong)

lemma toString_hex_bcd_frame:
  assumes "a7 < 10" "a6 < 10" "a5 < 10" "a4 < 10" "a3 < 10" "a2 < 10" "a1 < 10" "a0 < 10"
  shows "toString_hex [of_nat (16 * a7 + a6), of_nat (16 * a5 + a4),
                       of_nat (16 * a3 + a2), of_nat (16 * a1 + a0), 0x01] =
         [digit_char a7, digit_char a6, digit_char a5, digit_char a4,
          digit_char a3, digit_char a2, digit_char a1, digit_char a0] @ ''01''"
proof -
  have one: "hex_of_byte 0x01 = ''01''" by (simp add: hex_of_byte_def hex_char_def)
  show ?thesis
    unfolding toString_hex_def
    by (simp only: list.map concat.simps hex_of_byte_bcd assms one) simp
qed

lemma setFrequency_valid_number:
  assumes "isValidRxFrequency (JNum f)" and "0 \<le> f" and "f < 100000000"
  shows "\<exists>frame. toString_hex frame = padStart (toString_int f) 8 CHR ''0'' @ ''01'' \<and>
           length frame = 5 \<and>
           setFrequency isValidRxFrequency this incoming (Some (JNum f)) =
             (case execute this incoming frame None of
                Inl e \<Rightarrow> Inl e
              | Inr (resp, this') \<Rightarrow> Inr (Value (padStart (toString_int f) 8 CHR ''0''), this'))"
proof -
  define n where "n = nat f"
  have n: "n < 100000000" and ts: "toString_int f = digits n"
    using assms by (simp_all add: n_def toString_int_def)
  have pad: "padStart (toString (JNum f)) 8 CHR ''0'' =
           [digit_char (n div 10000000 mod 10), digit_char (n div 1000000 mod 10),
            digit_char (n div 100000 mod 10), digit_char (n div 10000 mod 10),
            digit_char (n div 1000 mod 10), digit_char (n div 100 mod 10),
            digit_char (n div 10 mod 10), digit_char (n mod 10)]"
    using padStart_digits_8 [OF n] by (simp add: ts)
  let ?frame = "[of_nat (16 * (n div 10000000 mod 10) + n div 1000000 mod 10),
                 of_nat (16 * (n div 100000 mod 10) + n div 10000 mod 10),
                 of_nat (16 * (n div 1000 mod 10) + n div 100 mod 10),
                 of_nat (16 * (n div 10 mod 10) + n mod 10), 0x01] :: byte list"
  have "setFrequency isValidRxFrequency this incoming (Some (JNum f)) =
         (case execute this incoming ?frame None of
            Inl e \<Rightarrow> Inl e
          | Inr (resp, this') \<Rightarrow> Inr (Value (padStart (toString (JNum f)) 8 CHR ''0''), this'))"
    by (rule setFrequency_digits [where isValidRxFrequency = isValidRxFrequency and v = "JNum f",
          OF assms(1) _ pad]) simp_all
  moreover have "toString_hex ?frame = padStart (toString (JNum f)) 8 CHR ''0'' @ ''01''"
    unfolding pad by (rule toString_hex_bcd_frame) simp_all
  moreover have "length ?frame = 5" by simp
  ultimately show ?thesis
    unfolding toString.simps by blast
qed

lemma padStart_toString_int_8:
  assumes "0 \<le> f" and "f < 100000000"
  shows "padStart (toString_int f) 8 CHR ''0'' =
           map (\<lambda>k. digit_char (nat f div 10 ^ k mod 10)) [7, 6, 5, 4, 3, 2, 1, 0]"
proof -
  have "nat f < 100000000" and "toString_int f = digits (nat f)"
    using assms by (simp_all add: toString_int_def)
  then show ?thesis using padStart_digits_8 [of "nat f"] by simp
qed

subsection \<open>Any frequency value\<close>

lemma isDecimalDigit_digit_char: "isDecimalDigit c = (\<exists>a<10. c = digit_char a)"
proof -
  have len: "length ''0123456789'' = 10" by simp
  show ?thesis
    unfolding isDecimalDigit_def digit_char_def in_set_conv_nth len by auto
qed

lemma decimalValue_None: "\<not> isDecimalDigit c \<Longrightarrow> decimalValue c = None"
  by (simp add: decimalValue_def isDecimalDigit_def)

lemma decToHex_cases:
  "decToHex [t, u] =
     (if isDecimalDigit t \<and> isDecimalDigit u
      then Inr (of_nat (16 * the (decimalValue t) + the (decimalValue u)))
      else Inl FormatError)"
proof (cases "isDecimalDigit t \<and> isDecimalDigit u")
  case True
  then obtain a c where "a < 10" "c < 10" "t = digit_char a" "u = digit_char c"
    by (auto simp: isDecimalDigit_digit_char)
  then show ?thesis
    using True by (simp add: decToHex_digit_chars decimalValue_digit_char)
next
  case False
  then show ?thesis
    by (auto simp: decToHex_def decimalValue_None split: option.splits)
qed

lemma hex_of_byte_decimal:
  assumes "isDecimalDigit t" and "isDecimalDigit u"
  shows "hex_of_byte (of_nat (16 * the (decimalValue t) + the (decimalValue u))) = [t, u]"
proof -
  from assms obtain a c where "a < 10" "c < 10" "t = digit_char a" "u = digit_char c"
    by (auto simp: isDecimalDigit_digit_char)
  then show ?thesis by (simp only: decimalValue_digit_char option.sel hex_of_byte_bcd)
qed

lemma eight_characters:
  "8 \<le> length xs \<Longrightarrow> \<exists>c0 c1 c2 c3 c4 c5 c6 c7 r. xs = c0 # c1 # c2 # c3 # c4 # c5 # c6 # c7 # r"
  by (simp add: eval_nat_numeral Suc_le_length_iff) blast

lemma length_padStart: "n \<le> length (padStart s n c)"
  by (simp add: padStart_def)

lemma decToHex_bind:
  "(case decToHex [t, u] of Inl e \<Rightarrow> Inl e | Inr b \<Rightarrow> k b) =
     (if isDecimalDigit t \<and> isDecimalDigit u
      then k (of_nat (16 * the (decimalValue t) + the (decimalValue u)))
      else Inl FormatError)"
  by (simp only: decToHex_cases if_distrib [of "case_sum Inl k"] sum.case)

lemma if_nest: "(if a then (if b then x else e) else e) = (if a \<and> b then x else e)"
  by simp

text \<open>
  \<open>setFrequency\<close> on a value that passes the check: the frame is built from the
  first eight characters of the padded string, and a character that is no decimal digit
  fails the conversion before \<open>execute\<close> is called.
\<close>

lemma setFrequency_checked_value:
  assumes "freq = (case frequency_arg of None \<Rightarrow> JStr ''14575000'' | Some v \<Rightarrow> v)"
    and "checked = (if isNaN freq then parseInt freq else freq)"
    and "isValidRxFrequency checked"
    and "padStart (toString checked) 8 CHR ''0'' = c0 # c1 # c2 # c3 # c4 # c5 # c6 # c7 # r"
  shows "setFrequency isValidRxFrequency this incoming frequency_arg =
           (if list_all isDecimalDigit [c0, c1, c2, c3, c4, c5, c6, c7]
            then case execute this incoming
                        [of_nat (16 * the (decimalValue c0) + the (decimalValue c1)),
                         of_nat (16 * the (decimalValue c2) + the (decimalValue c3)),
                         of_nat (16 * the (decimalValue c4) + the (decimalValue c5)),
                         of_nat (16 * the (decimalValue c6) + the (decimalValue c7)),
                         0x01] None of
                   Inl e \<Rightarrow> Inl e
                 | Inr (resp, this') \<Rightarrow> Inr (Value (padStart (toString checked) 8 CHR ''0''), this')
            else Inl FormatError)"
proof -
  let ?f = "c0 # c1 # c2 # c3 # c4 # c5 # c6 # c7 # r"
  have ch: "charAt ?f 0 @ charAt ?f 1 = [c0, c1]" "charAt ?f 2 @ charAt ?f 3 = [c2, c3]"
    "charAt ?f 4 @ charAt ?f 5 = [c4, c5]" "charAt ?f 6 @ charAt ?f 7 = [c6, c7]"
    by (simp_all add: charAt_def)
  have all: "list_all isDecimalDigit [c0, c1, c2, c3, c4, c5, c6, c7] =
     ((isDecimalDigit c0 \<and> isDecimalDigit c1) \<and> (isDecimalDigit c2 \<and> isDecimalDigit c3) \<and>
      (isDecimalDigit c4 \<and> isDecimalDigit c5) \<and> (isDecimalDigit c6 \<and> isDecimalDigit c7))"
    by simp
  show ?thesis
    unfolding setFrequency_def Let_def all
    using assms(3,4) unfolding assms(2) assms(1)
    by (simp only: if_True ch decToHex_bind if_nest)
qed

lemma toString_hex_decimal_frame:
  assumes "list_all isDecimalDigit [c0, c1, c2, c3, c4, c5, c6, c7]"
  shows "toString_hex
           [of_nat (16 * the (decimalValue c0) + the (decimalValue c1)),
            of_nat (16 * the (decimalValue c2) + the (decimalValue c3)),
            of_nat (16 * the (decimalValue c4) + the (decimalValue c5)),
            of_nat (16 * the (decimalValue c6) + the (decimalValue c7)),
            0x01] = [c0, c1, c2, c3, c4, c5, c6, c7] @ ''01''"
proof -
  have one: "hex_of_byte 0x01 = ''01''" by (simp add: hex_of_byte_def hex_char_def)
  from assms have d: "isDecimalDigit c0" "isDecimalDigit c1" "isDecimalDigit c2"
    "isDecimalDigit c3" "isDecimalDigit c4" "isDecimalDigit c5" "isDecimalDigit c6"
    "isDecimalDigit c7"
    by simp_all
  show ?thesis
    unfolding toString_hex_def
    by (simp only: list.map concat.simps hex_of_byte_decimal d one) simp
qed


subsection \<open>The frequency 14575000\<close>

lemma pad_14575000:
  "padStart (toString (JNum 14575000)) 8 CHR ''0'' =
     [digit_char 1, digit_char 4, digit_char 5, digit_char 7,
      digit_char 5, digit_char 0, digit_char 0, digit_char 0]"
  "padStart (toString (JStr ''14575000'')) 8 CHR ''0'' =
     [digit_char 1, digit_char 4, digit_char 5, digit_char 7,
      digit_char 5, digit_char 0, digit_char 0, digit_char 0]"
  by (simp_all add: padStart_def toString_int_def digits.simps digit_char_def)

lemma isNaN_14575000: "isNaN (JStr ''14575000'') = False"
  by (simp add: stringIsNumeric_def trim_def isWhiteSpace_def stripSign_def
        isStrUnsignedDecimalLiteral_def isDecimalDigit_def)

lemma setFrequency_default:
  "setFrequency isValidRxFrequency this incoming None =
   setFrequency isValidRxFrequency this incoming (Some (JStr ''14575000''))"
  by (simp add: setFrequency_def)

lemma setFrequency_of_14575000:
  assumes "v = JNum 14575000 \<or> v = JStr ''14575000''" and "isValidRxFrequency v"
  shows "setFrequency isValidRxFrequency this incoming (Some v) =
           (case execute this incoming [0x14, 0x57, 0x50, 0x00, 0x01] (Some 1) of
              Inl e \<Rightarrow> Inl e
            | Inr (resp, this') \<Rightarrow> Inr (Value ''14575000'', this'))"
proof -
  have nn: "\<not> isNaN v" using assms(1) isNaN_14575000 by auto
  have pad: "padStart (toString v) 8 CHR ''0'' =
     [digit_char 1, digit_char 4, digit_char 5, digit_char 7,
      digit_char 5, digit_char 0, digit_char 0, digit_char 0]"
    using assms(1) pad_14575000 by auto
  have "setFrequency isValidRxFrequency this incoming (Some v) =
           (case execute this incoming
                   [of_nat (16 * 1 + 4), of_nat (16 * 5 + 7),
                    of_nat (16 * 5 + 0), of_nat (16 * 0 + 0), 0x01] None of
              Inl e \<Rightarrow> Inl e
            | Inr (resp, this') \<Rightarrow> Inr (Value (padStart (toString v) 8 CHR ''0''), this'))"
    by (rule setFrequency_digits [where isValidRxFrequency = isValidRxFrequency and v = v,
          OF assms(2) nn pad]) simp_all
  moreover have "padStart (toString v) 8 CHR ''0'' = ''14575000''"
    unfolding pad by (simp add: digit_char_def)
  ultimately show ?thesis by (simp add: execute_default cong: sum.case_cong)
qed

subsection \<open>Other concrete arguments\<close>

lemma pad_123456789: "padStart (toString_int 123456789) 8 CHR ''0'' = ''123456789''"
  by (simp add: padStart_def toString_int_def digits.simps digit_char_def)

lemma pad_minus_5: "padStart (toString_int (- 5)) 8 CHR ''0'' = ''000000-5''"
  by (simp add: padStart_def toString_int_def digits.simps digit_char_def eval_nat_numeral)

lemma parseInt_14575000Hz: "parseInt_string ''14575000Hz'' = JNum 14575000"
  by (simp add: parseInt_string_def isWhiteSpace_def stripSign_def isDecimalDigit_def
      hexValue_def Let_def)

lemma isNaN_14575000Hz: "stringIsNumeric ''14575000Hz'' = False"
  by (simp add: stringIsNumeric_def trim_def isWhiteSpace_def stripSign_def
      isStrUnsignedDecimalLiteral_def isNonDecimalIntegerLiteral_def isDecimalDigits_def
      isExponentPart_opt_def isDecimalDigit_def isHexDigit_def Let_def)



lemma decToHex_12345678:
  "decToHex ''12'' = Inr 0x12" "decToHex ''34'' = Inr 0x34"
  "decToHex ''56'' = Inr 0x56" "decToHex ''78'' = Inr 0x78"
  by (simp_all add: decToHex_def decimalValue_def)

lemma setFrequency_123456789:
  "setFrequency (\<lambda>f. True) this incoming (Some (JNum 123456789)) =
     (case execute this incoming [0x12, 0x34, 0x56, 0x78, 0x01] (Some 1) of
        Inl e \<Rightarrow> Inl e
      | Inr (resp, this') \<Rightarrow> Inr (Value ''123456789'', this'))"
  by (simp add: setFrequency_def pad_123456789 charAt_def decToHex_12345678 execute_default)

lemma setFrequency_minus_5:
  "setFrequency (\<lambda>f. True) this incoming (Some (JNum (- 5))) = Inl FormatError"
  by (simp add: setFrequency_def pad_minus_5 charAt_def decToHex_def decimalValue_def)

subsection \<open>The hexadecimal rendering of a buffer\<close>

lemma length_hex_of_byte: "length (hex_of_byte b) = 2"
  by (simp add: hex_of_byte_def)

lemma length_toString_hex: "length (toString_hex buf) = 2 * length buf"
  by (induction buf) (simp_all add: toString_hex_def length_hex_of_byte)




subsection \<open>Status bytes\<close>

lemma and_128: "(b AND 0x80 = 0) = (\<not> bit b 7)" for b :: byte
  using and_exp_eq_0_iff_not_bit [of b 7] by simp
lemma and_64: "(b AND 0x40 = 0) = (\<not> bit b 6)" for b :: byte
  using and_exp_eq_0_iff_not_bit [of b 6] by simp
lemma and_32: "(b AND 0x20 = 0) = (\<not> bit b 5)" for b :: byte
  using and_exp_eq_0_iff_not_bit [of b 5] by simp

lemma mask_4: "(0x0F :: byte) = mask 4"
  by (simp add: mask_eq_exp_minus_1)

lemma low_nibble: "uint (b AND 0x0F) = int (unat b mod 16)" for b :: byte
proof -
  have "unat (b AND 0x0F) = unat b mod 16"
    unfolding mask_4 by (simp add: unat_mod_distrib take_bit_eq_mod flip: take_bit_eq_mask)
  then show ?thesis by (metis uint_nat)
qed

lemma hexValue_hex_char: "n < 16 \<Longrightarrow> hexValue (hex_char n) = Some n"
  by (erule tabulated) (simp add: upt_16 hexValue_def hex_char_def)

lemma hexToBin_hex_of_byte: "hexToBin (Value (toString_hex [b])) = Inr b"
proof -
  have "unat b < 256" using unsigned_less [of b, where 'a = nat] by simp
  then have hi: "unat b div 16 < 16" by simp
  have lo: "unat b mod 16 < 16" by simp
  have "(of_nat (16 * (unat b div 16) + unat b mod 16) :: byte) = of_nat (unat b)" by simp
  then show ?thesis
    by (simp add: hexToBin_def toString_hex_def hex_of_byte_def hexValue_hex_char [OF hi]
        hexValue_hex_char [OF lo])
qed

lemma smeter_table:
  assumes "s < 16"
  shows "(if int s \<le> 9 then ''S'' @ toString_int (int s)
          else ''S9+'' @ toString_int ((int s - 9) * 10) @ ''dB'') =
         [''S0'', ''S1'', ''S2'', ''S3'', ''S4'', ''S5'', ''S6'', ''S7'', ''S8'', ''S9'',
          ''S9+10dB'', ''S9+20dB'', ''S9+30dB'', ''S9+40dB'', ''S9+50dB'', ''S9+60dB''] ! s"
  using assms
  by (rule tabulated) (simp add: upt_16 toString_int_def digits.simps digit_char_def)

subsection \<open>The decoders on a channel that replies\<close>

lemma getFreqAndMode_reply:
  assumes "port this = Some p" and "length chunk = 5"
  shows "getFreqAndMode getModeNameById this (chunk @ rest) =
           Inr (Value \<lparr>frequency = take 8 (toString_hex chunk),
                       mhzs = parseInt (JStr (take 3 (toString_hex chunk))),
                       khzs = parseInt (JStr (take 3 (drop 3 (toString_hex chunk)))),
                       hzs = parseInt (JStr (take 2 (drop 6 (toString_hex chunk)))),
                       mode_id = drop 8 (toString_hex chunk),
                       mode_name = getModeNameById (drop 8 (toString_hex chunk))\<rparr>,
                this\<lparr>executableCommand := Some [0x00, 0x00, 0x00, 0x00, 0x03],
                     port := Some (p\<lparr>piped := [5]\<rparr>),
                     parser := Some 5,
                     history := history this @
                       [Unpipe, Pipe 5, SetTimeout 1000, Write [0x00, 0x00, 0x00, 0x00, 0x03],
                        Once 5, ClearInterval]\<rparr>)"
proof -
  have "length (toString_hex chunk) = 10" using assms(2) by (simp add: length_toString_hex)
  then have ne: "toString_hex chunk \<noteq> []" by auto
  have sub: "substring r 0 8 = take 8 r" "substring r 0 3 = take 3 r"
    "substring r 3 6 = take 3 (drop 3 r)" "substring r 6 8 = take 2 (drop 6 r)" for r
    by (simp_all add: substring_def)
  have tt: "take 3 (take 8 r) = take 3 r" "take 3 (drop 3 (take 8 r)) = take 3 (drop 3 r)"
    "take 2 (drop 6 (take 8 r)) = take 2 (drop 6 r)" for r :: string
    by (simp_all add: drop_take)
  show ?thesis
    unfolding getFreqAndMode_def
    using assms(2) ne
    by (simp add: execute_connected [OF assms(1)] sub tt substring_from_def Let_def)
qed

lemma getReceiverStatus_reply:
  assumes "port this = Some p"
  shows "getReceiverStatus this (b # rest) =
           Inr (Value \<lparr>smeter_reading =
                        [''S0'', ''S1'', ''S2'', ''S3'', ''S4'', ''S5'', ''S6'', ''S7'', ''S8'',
                         ''S9'', ''S9+10dB'', ''S9+20dB'', ''S9+30dB'', ''S9+40dB'',
                         ''S9+50dB'', ''S9+60dB''] ! (unat b mod 16),
                      squelched = bit b 7\<rparr>,
                this\<lparr>executableCommand := Some [0x00, 0x00, 0x00, 0x00, 0xE7],
                     port := Some (p\<lparr>piped := [1]\<rparr>),
                     parser := Some 1,
                     history := history this @
                       [Unpipe, Pipe 1, SetTimeout 1000, Write [0x00, 0x00, 0x00, 0x00, 0xE7],
                        Once 1, ClearInterval]\<rparr>)"
proof -
  have s: "unat b mod 16 < 16" by simp
  have ex: "execute this (b # rest) [0x00, 0x00, 0x00, 0x00, 0xE7] (Some 1) =
              Inr (Value (toString_hex [b]),
                this\<lparr>executableCommand := Some [0x00, 0x00, 0x00, 0x00, 0xE7],
                     port := Some (p\<lparr>piped := [1]\<rparr>),
                     parser := Some 1,
                     history := history this @
                       [Unpipe, Pipe 1, SetTimeout 1000, Write [0x00, 0x00, 0x00, 0x00, 0xE7],
                        Once 1, ClearInterval]\<rparr>)"
    by (simp add: execute_connected [OF assms])
  show ?thesis
    unfolding getReceiverStatus_def ex smeter_table [OF s, symmetric]
    by (simp only: sum.case prod.case hexToBin_hex_of_byte Let_def and_128 low_nibble) simp
qed

lemma getTransmitterStatus_reply:
  assumes "port this = Some p"
  shows "getTransmitterStatus this (b # rest) =
           Inr (Value \<lparr>pttActive = (\<not> bit b 7), highSWR = bit b 6, splitModeOn = bit b 5\<rparr>,
                this\<lparr>executableCommand := Some [0x00, 0x00, 0x00, 0x00, 0xF7],
                     port := Some (p\<lparr>piped := [1]\<rparr>),
                     parser := Some 1,
                     history := history this @
                       [Unpipe, Pipe 1, SetTimeout 1000, Write [0x00, 0x00, 0x00, 0x00, 0xF7],
                        Once 1, ClearInterval]\<rparr>)"
  unfolding getTransmitterStatus_def
  by (simp add: execute_connected [OF assms] hexToBin_hex_of_byte and_128 and_64 and_32)

text \<open>No return path of \<open>getReceiverStatus\<close> yields the sentinel \<open>false\<close>.\<close>

lemma getReceiverStatus_never_false: "getReceiverStatus this incoming \<noteq> Inr (JFalse, this')"
  by (simp add: getReceiverStatus_def Let_def split: sum.splits prod.splits)

subsection \<open>The status operations and the response string\<close>






section \<open>The exchange\<close>

text \<open>
  C9, as stated, holds for every call of \<open>execute\<close>. Two calls that overlap
  break it. On the session \<open>ttyUSB0\<close> the exchange of \<open>getFreqAndMode\<close>
  (reply length 5) is started, and before its reply arrives the exchange of
  \<open>getReceiverStatus\<close> (reply length 1) is started. The second call detaches the
  re-framer of the first and attaches one of chunk length 1, so the five reply bytes
  never reach the listener of the first call: its timer resolves it with
  \<open>false\<close>, and when it returns the attached re-framer has chunk length 1, not 5.
\<close>

theorem execute_overlapped:
  "(let call1 = ttyUSB0\<lparr>executableCommand := Some [0x00, 0x00, 0x00, 0x00, 0x03],
                        port := Some \<lparr>path = ''/dev/ttyUSB0'', baudRate = 9600, piped = [5]\<rparr>,
                        parser := Some 5,
                        history := [Pipe 1, Unpipe, Pipe 5, SetTimeout 1000,
                                    Write [0x00, 0x00, 0x00, 0x00, 0x03], Once 5]\<rparr>;
        call2 = call1\<lparr>executableCommand := Some [0x00, 0x00, 0x00, 0x00, 0xE7],
                      port := Some \<lparr>path = ''/dev/ttyUSB0'', baudRate = 9600, piped = [1]\<rparr>,
                      parser := Some 1,
                      history := history call1 @
                                   [Unpipe, Pipe 1, SetTimeout 1000,
                                    Write [0x00, 0x00, 0x00, 0x00, 0xE7], Once 1]\<rparr>
    in execute_call ttyUSB0 [0x00, 0x00, 0x00, 0x00, 0x03] (Some 5) =
         Inr (\<lparr>reframer = 2, chunk_length = 5\<rparr>, call1) \<and>
       execute_call call1 [0x00, 0x00, 0x00, 0x00, 0xE7] (Some 1) =
         Inr (\<lparr>reframer = 3, chunk_length = 1\<rparr>, call2) \<and>
       settle \<lparr>reframer = 2, chunk_length = 5\<rparr> call2 [0x14, 0x57, 0x50, 0x00, 0x03] =
         (JFalse, call2) \<and>
       parser call2 = Some 1 \<and>
       map_option piped (port call2) = Some [1])"
  by (simp add: Let_def execute_call_def setCommand_def setResponseLength_def executor_def
        getCommand_def reframers_def settle_def ttyUSB0_def)

text \<open>
  C9, amended. For every call of \<open>execute\<close> on a connected session with expected
  reply length \<open>L\<close> (1 when the argument is omitted; the re-framer accepts lengths
  from 1 up) during which no other call of \<open>execute\<close> starts on the session, so
  that its promise settles on the session as the call left it: the re-framer is detached
  and a new one of chunk length exactly \<open>L\<close> is attached before the command frame
  is written, and when the call returns the session's \<open>parser\<close> and the port's
  only attachment still have chunk length \<open>L\<close>; after \<open>Pipe L\<close> the history
  holds no further \<open>Unpipe\<close> or \<open>Pipe\<close>.
\<close>

theorem execute_reattaches_reframer:
  assumes "port this \<noteq> None"
    and "response_length = (case response_length_arg of None \<Rightarrow> 1 | Some n \<Rightarrow> n)"
    and "0 < response_length"
  shows "\<exists>x this1 resp this'.
           execute_call this command response_length_arg = Inr (x, this1) \<and>
           settle x this1 incoming = (resp, this') \<and>
           execute this incoming command response_length_arg = Inr (resp, this') \<and>
           parser this' = Some response_length \<and>
           map_option piped (port this') = Some [response_length] \<and>
           history this' = history this @
             [Unpipe, Pipe response_length, SetTimeout 1000, Write command, Once response_length] @
             (if response_length \<le> length incoming then [ClearInterval] else [])"
proof -
  from assms(1) obtain p where p: "port this = Some p" by auto
  have arg: "execute_call this command response_length_arg =
             execute_call this command (Some response_length)"
    using assms(2) by (cases response_length_arg) (simp_all add: execute_call_def)
  show ?thesis
    unfolding execute_settles arg execute_call_connected [OF p assms(3)]
    by (simp add: settle_def reframers_def)
qed

theorem execute_reattaches_reframer_witness:
  "\<exists>x this1 resp this'.
     execute_call ttyUSB0 [0x00, 0x00, 0x00, 0x00, 0x03] (Some 5) = Inr (x, this1) \<and>
     settle x this1 [0x14, 0x57] = (resp, this') \<and>
     execute ttyUSB0 [0x14, 0x57] [0x00, 0x00, 0x00, 0x00, 0x03] (Some 5) = Inr (resp, this') \<and>
     parser this' = Some 5 \<and>
     map_option piped (port this') = Some [5] \<and>
     history this' =
       [Pipe 1, Unpipe, Pipe 5, SetTimeout 1000, Write [0x00, 0x00, 0x00, 0x00, 0x03], Once 5]"
proof -
  have c: "port ttyUSB0 \<noteq> None" and h: "history ttyUSB0 = [Pipe 1]" by (simp_all add: ttyUSB0_def)
  show ?thesis
    using execute_reattaches_reframer [OF c, of 5 "Some 5" "[0x00, 0x00, 0x00, 0x00, 0x03]" "[0x14, 0x57]"]
    by (simp add: h)
qed




section \<open>Set frequency\<close>




text \<open>
  C3. On a connected session, \<open>setFrequency\<close> called with 14575000, or with no
  argument (the default is the string \<open>'14575000'\<close>), and with that value accepted
  by \<open>isValidRxFrequency\<close>, writes exactly one buffer to the port, the five bytes
  \<open>0x14 0x57 0x50 0x00 0x01\<close>, and returns \<open>'14575000'\<close>.
\<close>

theorem setFrequency_14575000_frame:
  assumes "port this \<noteq> None"
    and "frequency_arg = Some (JNum 14575000) \<or> frequency_arg = None"
    and "isValidRxFrequency (case frequency_arg of None \<Rightarrow> JStr ''14575000'' | Some v \<Rightarrow> v)"
  shows "\<exists>this'. setFrequency isValidRxFrequency this incoming frequency_arg =
                    Inr (Value ''14575000'', this') \<and>
                  executableCommand this' = Some [0x14, 0x57, 0x50, 0x00, 0x01] \<and>
                  history this' = history this @
                    [Unpipe, Pipe 1, SetTimeout 1000, Write [0x14, 0x57, 0x50, 0x00, 0x01], Once 1] @
                    (if 1 \<le> length incoming then [ClearInterval] else [])"
proof -
  define v where "v = (case frequency_arg of None \<Rightarrow> JStr ''14575000'' | Some v \<Rightarrow> v)"
  have v: "v = JNum 14575000 \<or> v = JStr ''14575000''" and valid: "isValidRxFrequency v"
    using assms(2,3) by (auto simp: v_def)
  have "setFrequency isValidRxFrequency this incoming frequency_arg =
        setFrequency isValidRxFrequency this incoming (Some v)"
    using assms(2) by (auto simp: v_def setFrequency_default)
  moreover from execute_history [OF assms(1), of 1 incoming "[0x14, 0x57, 0x50, 0x00, 0x01]"]
  obtain resp this' where
    "execute this incoming [0x14, 0x57, 0x50, 0x00, 0x01] (Some 1) = Inr (resp, this')"
    and "executableCommand this' = Some [0x14, 0x57, 0x50, 0x00, 0x01]"
    and "history this' = history this @
           [Unpipe, Pipe 1, SetTimeout 1000, Write [0x14, 0x57, 0x50, 0x00, 0x01], Once 1] @
           (if 1 \<le> length incoming then [ClearInterval] else [])"
    by auto
  ultimately show ?thesis
    using setFrequency_of_14575000 [where isValidRxFrequency = isValidRxFrequency and v = v,
        OF v valid, of this incoming] by simp
qed

theorem setFrequency_14575000_frame_witness:
  "(\<exists>this'. setFrequency (\<lambda>f. True) ttyUSB0 [] (Some (JNum 14575000)) =
              Inr (Value ''14575000'', this') \<and>
            executableCommand this' = Some [0x14, 0x57, 0x50, 0x00, 0x01] \<and>
            history this' =
              [Pipe 1, Unpipe, Pipe 1, SetTimeout 1000, Write [0x14, 0x57, 0x50, 0x00, 0x01], Once 1]) \<and>
   (\<exists>this'. setFrequency (\<lambda>f. True) ttyUSB0 [] None =
              Inr (Value ''14575000'', this') \<and>
            executableCommand this' = Some [0x14, 0x57, 0x50, 0x00, 0x01] \<and>
            history this' =
              [Pipe 1, Unpipe, Pipe 1, SetTimeout 1000, Write [0x14, 0x57, 0x50, 0x00, 0x01], Once 1])"
proof -
  have c: "port ttyUSB0 \<noteq> None" and h: "history ttyUSB0 = [Pipe 1]" by (simp_all add: ttyUSB0_def)
  show ?thesis
    using setFrequency_14575000_frame [OF c, of "Some (JNum 14575000)" "\<lambda>f. True" "[]"]
      setFrequency_14575000_frame [OF c, of None "\<lambda>f. True" "[]"]
    by (simp add: h)
qed

text \<open>
  C2, as stated, has \<open>setFrequency\<close> perform no channel read, with an expected
  reply length of 0. Run on the session \<open>ttyUSB0\<close> with a silent radio, the call
  attaches a re-framer of chunk length 1 (\<open>Pipe 1\<close>: \<open>execute\<close> is called
  without a reply length, and the default is 1) and registers the listener for a reply
  chunk (\<open>Once 1\<close>) after writing the frame.
\<close>

theorem setFrequency_listens_for_reply:
  "setFrequency (\<lambda>f. True) ttyUSB0 [] (Some (JNum 14575000)) =
     Inr (Value ''14575000'',
          ttyUSB0\<lparr>executableCommand := Some [0x14, 0x57, 0x50, 0x00, 0x01],
                   history := [Pipe 1, Unpipe, Pipe 1, SetTimeout 1000,
                               Write [0x14, 0x57, 0x50, 0x00, 0x01], Once 1]\<rparr>)"
proof -
  have "port ttyUSB0 = Some \<lparr>path = ''/dev/ttyUSB0'', baudRate = 9600, piped = [1]\<rparr>"
    by (simp add: ttyUSB0_def)
  from execute_connected [OF this, of 1 "[]" "[0x14, 0x57, 0x50, 0x00, 0x01]"]
  show ?thesis
    by (simp add: setFrequency_of_14575000 [where isValidRxFrequency = "\<lambda>f. True"] ttyUSB0_def)
qed

text \<open>
  C2, amended. Set-frequency discards the reply but still runs the exchange. Take any
  frequency argument (a safe integer, a string, or none, which stands for the string
  \<open>'14575000'\<close>) whose checked value, the argument itself or \<open>parseInt\<close> of
  it when \<open>isNaN\<close> holds, is accepted by \<open>isValidRxFrequency\<close>, and let
  \<open>padded\<close> be the string of the checked value padded on the left with zeros to
  eight characters. If the first eight characters of \<open>padded\<close> are decimal digits,
  \<open>setFrequency\<close> on a connected session attaches a re-framer of chunk length 1,
  arms the timer, writes the frame (in hexadecimal, those eight digits and \<open>01\<close>)
  and listens for one chunk; whether the chunk arrives or the timer fires, it returns
  \<open>padded\<close>. Otherwise the conversion of a character pair fails with
  \<open>FormatError\<close>.
\<close>

theorem setFrequency_awaits_reply:
  assumes "port this \<noteq> None"
    and "freq = (case frequency_arg of None \<Rightarrow> JStr ''14575000'' | Some v \<Rightarrow> v)"
    and "checked = (if isNaN freq then parseInt freq else freq)"
    and "isValidRxFrequency checked"
    and "exactlyModelled checked"
    and "padded = padStart (toString checked) 8 CHR ''0''"
  shows "if list_all isDecimalDigit (take 8 padded)
         then \<exists>frame this'.
                setFrequency isValidRxFrequency this incoming frequency_arg =
                  Inr (Value padded, this') \<and>
                toString_hex frame = take 8 padded @ ''01'' \<and>
                parser this' = Some 1 \<and>
                history this' = history this @
                  [Unpipe, Pipe 1, SetTimeout 1000, Write frame, Once 1] @
                  (if 1 \<le> length incoming then [ClearInterval] else [])
         else setFrequency isValidRxFrequency this incoming frequency_arg = Inl FormatError"
proof -
  from eight_characters [OF length_padStart [of 8 "toString checked" "CHR ''0''"]]
  obtain c0 c1 c2 c3 c4 c5 c6 c7 r
    where pad: "padStart (toString checked) 8 CHR ''0'' = c0 # c1 # c2 # c3 # c4 # c5 # c6 # c7 # r"
    by blast
  have take8: "take 8 padded = [c0, c1, c2, c3, c4, c5, c6, c7]"
    unfolding assms(6) pad by simp
  define frame :: "byte list" where "frame =
      [of_nat (16 * the (decimalValue c0) + the (decimalValue c1)),
       of_nat (16 * the (decimalValue c2) + the (decimalValue c3)),
       of_nat (16 * the (decimalValue c4) + the (decimalValue c5)),
       of_nat (16 * the (decimalValue c6) + the (decimalValue c7)),
       0x01]"
  have unfolded: "setFrequency isValidRxFrequency this incoming frequency_arg =
           (if list_all isDecimalDigit (take 8 padded)
            then case execute this incoming frame None of
                   Inl e \<Rightarrow> Inl e
                 | Inr (resp, this') \<Rightarrow> Inr (Value padded, this')
            else Inl FormatError)"
    using setFrequency_checked_value [where isValidRxFrequency = isValidRxFrequency,
        OF assms(2,3,4) pad, of this incoming]
    by (simp only: take8 frame_def assms(6) [symmetric])
  show ?thesis
  proof (cases "list_all isDecimalDigit (take 8 padded)")
    case False
    then show ?thesis using unfolded by (simp only: if_False)
  next
    case True
    have hex: "toString_hex frame = take 8 padded @ ''01''"
      unfolding take8 frame_def
      by (rule toString_hex_decimal_frame [OF True [unfolded take8]])
    from execute_history [OF assms(1), of 1 incoming frame]
    obtain resp this' where
      "execute this incoming frame (Some 1) = Inr (resp, this')"
      and "parser this' = Some 1"
      and "history this' = history this @
             [Unpipe, Pipe 1, SetTimeout 1000, Write frame, Once 1] @
             (if 1 \<le> length incoming then [ClearInterval] else [])"
      by auto
    moreover from this(1) have "setFrequency isValidRxFrequency this incoming frequency_arg =
        Inr (Value padded, this')"
      using unfolded True by (simp add: execute_default)
    ultimately have "\<exists>frame this'.
                setFrequency isValidRxFrequency this incoming frequency_arg =
                  Inr (Value padded, this') \<and>
                toString_hex frame = take 8 padded @ ''01'' \<and>
                parser this' = Some 1 \<and>
                history this' = history this @
                  [Unpipe, Pipe 1, SetTimeout 1000, Write frame, Once 1] @
                  (if 1 \<le> length incoming then [ClearInterval] else [])"
      using hex by blast
    with True show ?thesis by (simp only: if_True)
  qed
qed

theorem setFrequency_awaits_reply_witness:
  "(\<exists>frame this'.
      setFrequency (\<lambda>f. True) ttyUSB0 [0x00] (Some (JNum 123456789)) =
        Inr (Value ''123456789'', this') \<and>
      toString_hex frame = ''1234567801'' \<and>
      parser this' = Some 1 \<and>
      history this' = [Pipe 1, Unpipe, Pipe 1, SetTimeout 1000, Write frame, Once 1, ClearInterval]) \<and>
   (\<exists>frame this'.
      setFrequency (\<lambda>f. True) ttyUSB0 [] (Some (JStr ''14575000Hz'')) =
        Inr (Value ''14575000'', this') \<and>
      toString_hex frame = ''1457500001'' \<and>
      parser this' = Some 1 \<and>
      history this' = [Pipe 1, Unpipe, Pipe 1, SetTimeout 1000, Write frame, Once 1]) \<and>
   setFrequency (\<lambda>f. True) ttyUSB0 [0x00] (Some (JNum (- 5))) = Inl FormatError"
proof -
  have c: "port ttyUSB0 \<noteq> None" and h: "history ttyUSB0 = [Pipe 1]" by (simp_all add: ttyUSB0_def)
  have p: "padStart (toString_int 14575000) 8 CHR ''0'' = ''14575000''"
    by (simp add: padStart_def toString_int_def digits.simps digit_char_def)
  have 1: "\<exists>frame this'.
      setFrequency (\<lambda>f. True) ttyUSB0 [0x00] (Some (JNum 123456789)) =
        Inr (Value ''123456789'', this') \<and>
      toString_hex frame = ''1234567801'' \<and>
      parser this' = Some 1 \<and>
      history this' = [Pipe 1, Unpipe, Pipe 1, SetTimeout 1000, Write frame, Once 1, ClearInterval]"
    using setFrequency_awaits_reply [OF c, where isValidRxFrequency = "\<lambda>f. True"
        and frequency_arg = "Some (JNum 123456789)" and incoming = "[0x00]"
        and freq = "JNum 123456789" and checked = "JNum 123456789"
        and padded = "''123456789''"]
    by (simp add: pad_123456789 isDecimalDigit_def exactlyModelled_def h)
  have 2: "\<exists>frame this'.
      setFrequency (\<lambda>f. True) ttyUSB0 [] (Some (JStr ''14575000Hz'')) =
        Inr (Value ''14575000'', this') \<and>
      toString_hex frame = ''1457500001'' \<and>
      parser this' = Some 1 \<and>
      history this' = [Pipe 1, Unpipe, Pipe 1, SetTimeout 1000, Write frame, Once 1]"
    using setFrequency_awaits_reply [OF c, where isValidRxFrequency = "\<lambda>f. True"
        and frequency_arg = "Some (JStr ''14575000Hz'')" and incoming = "[]"
        and freq = "JStr ''14575000Hz''" and checked = "JNum 14575000"
        and padded = "''14575000''"]
    by (simp add: isNaN_14575000Hz parseInt_14575000Hz p isDecimalDigit_def
        exactlyModelled_def h)
  have 3: "setFrequency (\<lambda>f. True) ttyUSB0 [0x00] (Some (JNum (- 5))) = Inl FormatError"
    using setFrequency_awaits_reply [OF c, where isValidRxFrequency = "\<lambda>f. True"
        and frequency_arg = "Some (JNum (- 5))" and incoming = "[0x00]"
        and freq = "JNum (- 5)" and checked = "JNum (- 5)"
        and padded = "''000000-5''"]
    by (simp add: pad_minus_5 isDecimalDigit_def exactlyModelled_def)
  from 1 2 3 show ?thesis by blast
qed

text \<open>
  C4, as stated, ranges over every integer that \<open>isValidRxFrequency\<close> accepts. The
  validity table is a parameter, and the frame carries eight decimal digits. With a table
  that accepts 123456789, \<open>setFrequency\<close> returns the nine characters
  \<open>'123456789'\<close> while the frame it writes is decoded by \<open>getFreqAndMode\<close>
  to \<open>'12345678'\<close>; with a table that accepts -5, the padded string is
  \<open>'000000-5'\<close> and the conversion of its last pair fails.
\<close>

theorem setFrequency_frame_outside_eight_digits:
  "(let frame = [0x12, 0x34, 0x56, 0x78, 0x01];
        sent = ttyUSB0\<lparr>executableCommand := Some frame,
                       history := [Pipe 1, Unpipe, Pipe 1, SetTimeout 1000, Write frame, Once 1]\<rparr>
    in setFrequency (\<lambda>f. True) ttyUSB0 [] (Some (JNum 123456789)) =
         Inr (Value ''123456789'', sent) \<and>
       (\<exists>r this'. getFreqAndMode (\<lambda>id. id) sent frame = Inr (Value r, this') \<and>
                   frequency r = ''12345678'') \<and>
       padStart (toString_int 123456789) 8 CHR ''0'' = ''123456789'' \<and>
       setFrequency (\<lambda>f. True) ttyUSB0 [] (Some (JNum (- 5))) = Inl FormatError)"
proof -
  have p: "port ttyUSB0 = Some \<lparr>path = ''/dev/ttyUSB0'', baudRate = 9600, piped = [1]\<rparr>"
    by (simp add: ttyUSB0_def)
  have hex: "toString_hex [0x12, 0x34, 0x56, 0x78, 0x01] = ''1234567801''"
    by (simp add: toString_hex_def hex_of_byte_def hex_char_def)
  have sent: "setFrequency (\<lambda>f. True) ttyUSB0 [] (Some (JNum 123456789)) =
      Inr (Value ''123456789'',
           ttyUSB0\<lparr>executableCommand := Some [0x12, 0x34, 0x56, 0x78, 0x01],
                    history := [Pipe 1, Unpipe, Pipe 1, SetTimeout 1000,
                                Write [0x12, 0x34, 0x56, 0x78, 0x01], Once 1]\<rparr>)"
    using execute_connected [OF p, of 1 "[]" "[0x12, 0x34, 0x56, 0x78, 0x01]"]
    by (simp add: setFrequency_123456789 ttyUSB0_def)
  have p': "port (ttyUSB0\<lparr>executableCommand := Some [0x12, 0x34, 0x56, 0x78, 0x01],
                    history := [Pipe 1, Unpipe, Pipe 1, SetTimeout 1000,
                                Write [0x12, 0x34, 0x56, 0x78, 0x01], Once 1]\<rparr>) =
            Some \<lparr>path = ''/dev/ttyUSB0'', baudRate = 9600, piped = [1]\<rparr>"
    by (simp add: ttyUSB0_def)
  have "length [0x12, 0x34, 0x56, 0x78, 0x01 :: byte] = 5" by simp
  from getFreqAndMode_reply [OF p' this, of "\<lambda>id. id" "[]"]
  have dec: "\<exists>r this'. getFreqAndMode (\<lambda>id. id)
        (ttyUSB0\<lparr>executableCommand := Some [0x12, 0x34, 0x56, 0x78, 0x01],
                    history := [Pipe 1, Unpipe, Pipe 1, SetTimeout 1000,
                                Write [0x12, 0x34, 0x56, 0x78, 0x01], Once 1]\<rparr>)
        [0x12, 0x34, 0x56, 0x78, 0x01] = Inr (Value r, this') \<and> frequency r = ''12345678''"
    unfolding hex by simp
  show ?thesis
    unfolding Let_def using sent dec pad_123456789 setFrequency_minus_5 [of ttyUSB0 "[]"]
    by blast
qed

text \<open>
  C4, amended. For every integer \<open>f\<close> from 0 to 99999999 that
  \<open>isValidRxFrequency\<close> accepts, the frame \<open>setFrequency\<close> builds for
  \<open>f\<close>, given back as the reply to a frequency query, is decoded by
  \<open>getFreqAndMode\<close> to the frequency string that is \<open>f\<close> padded with zeros
  to eight digits: its characters are the decimal digits of \<open>f\<close> from the
  ten-millions down to the units.
\<close>

theorem setFrequency_roundtrip:
  assumes "port this \<noteq> None" and "isValidRxFrequency (JNum f)" and "0 \<le> f" and "f < 100000000"
  shows "\<exists>frame this' r this''.
           setFrequency isValidRxFrequency this incoming (Some (JNum f)) =
             Inr (Value (padStart (toString_int f) 8 CHR ''0''), this') \<and>
           executableCommand this' = Some frame \<and>
           getFreqAndMode getModeNameById this' frame = Inr (Value r, this'') \<and>
           frequency r = padStart (toString_int f) 8 CHR ''0'' \<and>
           frequency r = map (\<lambda>k. digit_char (nat f div 10 ^ k mod 10)) [7, 6, 5, 4, 3, 2, 1, 0]"
proof -
  let ?pad = "padStart (toString_int f) 8 CHR ''0''"
  from assms(1) obtain p where p: "port this = Some p" by auto
  from setFrequency_valid_number [where isValidRxFrequency = isValidRxFrequency,
      OF assms(2-4), of this incoming]
  obtain frame where hex: "toString_hex frame = ?pad @ ''01''" and len: "length frame = 5"
    and set: "setFrequency isValidRxFrequency this incoming (Some (JNum f)) =
       (case execute this incoming frame None of
          Inl e \<Rightarrow> Inl e
        | Inr (resp, this') \<Rightarrow> Inr (Value ?pad, this'))"
    by blast
  define this' where "this' =
        this\<lparr>executableCommand := Some frame, port := Some (p\<lparr>piped := [1]\<rparr>),
             parser := Some 1,
             history := history this @ [Unpipe, Pipe 1, SetTimeout 1000, Write frame, Once 1] @
                        (if 1 \<le> length incoming then [ClearInterval] else [])\<rparr>"
  have sent: "setFrequency isValidRxFrequency this incoming (Some (JNum f)) = Inr (Value ?pad, this')"
    unfolding set this'_def by (simp add: execute_default execute_connected [OF p])
  have cmd: "executableCommand this' = Some frame"
    and p': "port this' = Some (p\<lparr>piped := [1]\<rparr>)"
    by (simp_all add: this'_def)
  have digits: "?pad = map (\<lambda>k. digit_char (nat f div 10 ^ k mod 10)) [7, 6, 5, 4, 3, 2, 1, 0]"
    by (rule padStart_toString_int_8 [OF assms(3,4)])
  then have "length ?pad = 8" by simp
  then have "take 8 (toString_hex frame) = ?pad" by (simp add: hex)
  with getFreqAndMode_reply [OF p' len, of getModeNameById "[]"]
  obtain r this'' where "getFreqAndMode getModeNameById this' frame = Inr (Value r, this'')"
    and "frequency r = ?pad"
    by simp
  with sent cmd digits show ?thesis by metis
qed

theorem setFrequency_roundtrip_witness:
  "\<exists>frame this' r this''.
     setFrequency (\<lambda>f. True) ttyUSB0 [] (Some (JNum 5001250)) = Inr (Value ''05001250'', this') \<and>
     executableCommand this' = Some frame \<and>
     getFreqAndMode (\<lambda>id. id) this' frame = Inr (Value r, this'') \<and>
     frequency r = ''05001250''"
proof -
  have c: "port ttyUSB0 \<noteq> None" by (simp add: ttyUSB0_def)
  have p: "padStart (toString_int 5001250) 8 CHR ''0'' = ''05001250''"
    by (simp add: padStart_def toString_int_def digits.simps digit_char_def)
  from setFrequency_roundtrip [OF c, of "\<lambda>f. True" 5001250 "[]" "\<lambda>id. id"]
  show ?thesis unfolding p by simp blast
qed

section \<open>Frequency and mode\<close>

text \<open>
  C8. On a connected session whose radio replies with the five bytes
  \<open>b0 \<dots> b4\<close>, \<open>getFreqAndMode\<close> returns the first eight characters of the
  hexadecimal rendering (the bytes \<open>b0 \<dots> b3\<close>) as the frequency string, its
  slices of 3, 3 and 2 characters parsed as the MHz, kHz and Hz fields, and the last two
  characters (the byte \<open>b4\<close>) as the mode id, with the mode name looked up from it.
  For the reply \<open>1457500003\<close> this is frequency \<open>14575000\<close>, 145 MHz,
  750 kHz, 0 Hz and mode id \<open>03\<close>.
\<close>

theorem getFreqAndMode_decodes:
  assumes "port this \<noteq> None"
  shows "(\<exists>this'. getFreqAndMode getModeNameById this (b0 # b1 # b2 # b3 # b4 # rest) =
            Inr (Value \<lparr>frequency = toString_hex [b0, b1, b2, b3],
                        mhzs = parseInt (JStr (take 3 (toString_hex [b0, b1, b2, b3]))),
                        khzs = parseInt (JStr (take 3 (drop 3 (toString_hex [b0, b1, b2, b3])))),
                        hzs = parseInt (JStr (drop 6 (toString_hex [b0, b1, b2, b3]))),
                        mode_id = toString_hex [b4],
                        mode_name = getModeNameById (toString_hex [b4])\<rparr>, this')) \<and>
         (\<exists>this'. getFreqAndMode getModeNameById this [0x14, 0x57, 0x50, 0x00, 0x03] =
            Inr (Value \<lparr>frequency = ''14575000'', mhzs = JNum 145, khzs = JNum 750,
                        hzs = JNum 0, mode_id = ''03'',
                        mode_name = getModeNameById ''03''\<rparr>, this'))"
proof -
  from assms obtain p where p: "port this = Some p" by auto
  have general: "\<exists>this'. getFreqAndMode getModeNameById this (b0 # b1 # b2 # b3 # b4 # rest) =
            Inr (Value \<lparr>frequency = toString_hex [b0, b1, b2, b3],
                        mhzs = parseInt (JStr (take 3 (toString_hex [b0, b1, b2, b3]))),
                        khzs = parseInt (JStr (take 3 (drop 3 (toString_hex [b0, b1, b2, b3])))),
                        hzs = parseInt (JStr (drop 6 (toString_hex [b0, b1, b2, b3]))),
                        mode_id = toString_hex [b4],
                        mode_name = getModeNameById (toString_hex [b4])\<rparr>, this')"
    for b0 b1 b2 b3 b4 rest
    using getFreqAndMode_reply [OF p, of "[b0, b1, b2, b3, b4]" getModeNameById rest]
    by (simp add: toString_hex_def hex_of_byte_def)
  have hex: "toString_hex [0x14, 0x57, 0x50, 0x00] = ''14575000''" "toString_hex [0x03] = ''03''"
    by (simp_all add: toString_hex_def hex_of_byte_def hex_char_def)
  have ints: "parseInt_string ''145'' = JNum 145" "parseInt_string ''750'' = JNum 750"
    "parseInt_string ''00'' = JNum 0"
    by (simp_all add: parseInt_string_def isWhiteSpace_def stripSign_def isDecimalDigit_def
          hexValue_def)
  from general [of "0x14" "0x57" "0x50" "0x00" "0x03" "[]"]
  have "\<exists>this'. getFreqAndMode getModeNameById this [0x14, 0x57, 0x50, 0x00, 0x03] =
            Inr (Value \<lparr>frequency = ''14575000'', mhzs = JNum 145, khzs = JNum 750,
                        hzs = JNum 0, mode_id = ''03'',
                        mode_name = getModeNameById ''03''\<rparr>, this')"
    unfolding hex by (simp add: ints)
  with general show ?thesis by blast
qed

theorem getFreqAndMode_decodes_witness:
  "\<exists>this'. getFreqAndMode (\<lambda>id. ''mode '' @ id) ttyUSB0 [0x43, 0x21, 0x00, 0x99, 0x08, 0xFF] =
            Inr (Value \<lparr>frequency = ''43210099'', mhzs = JNum 432, khzs = JNum 100,
                        hzs = JNum 99, mode_id = ''08'', mode_name = ''mode 08''\<rparr>, this')"
proof -
  have c: "port ttyUSB0 \<noteq> None" by (simp add: ttyUSB0_def)
  have hex: "toString_hex [0x43, 0x21, 0x00, 0x99] = ''43210099''" "toString_hex [0x08] = ''08''"
    by (simp_all add: toString_hex_def hex_of_byte_def hex_char_def)
  have ints: "parseInt_string ''432'' = JNum 432" "parseInt_string ''100'' = JNum 100"
    "parseInt_string ''99'' = JNum 99"
    by (simp_all add: parseInt_string_def isWhiteSpace_def stripSign_def isDecimalDigit_def
          hexValue_def)
  from getFreqAndMode_decodes [OF c, of "\<lambda>id. ''mode '' @ id" "0x43" "0x21" "0x00" "0x99" "0x08" "[0xFF]"]
  show ?thesis unfolding hex by (simp add: ints)
qed

section \<open>Receiver status\<close>

text \<open>
  C1. The claim: if the channel never delivers a reply, \<open>getReceiverStatus\<close>
  resolves to the ``no reply'' sentinel \<open>false\<close> rather than throwing or
  returning a decoded status. On the session \<open>ttyUSB0\<close> with no incoming byte the
  exchange resolves \<open>false\<close>, which \<open>getReceiverStatus\<close> hands to
  \<open>hexToBin\<close> without the \<open>if(!resp)\<close> test that \<open>getFreqAndMode\<close>
  makes; the call ends in a \<open>FormatError\<close>, not in the sentinel.
\<close>

theorem getReceiverStatus_no_reply:
  "getReceiverStatus ttyUSB0 [] = Inl FormatError"
  by (simp add: getReceiverStatus_def execute_def setCommand_def setResponseLength_def
        executeCommand_def getCommand_def ttyUSB0_def hexToBin_def)

text \<open>
  C6. For every one-byte reply \<open>b\<close> on a connected session,
  \<open>getReceiverStatus\<close> returns \<open>squelched\<close> true exactly when bit 7 of
  \<open>b\<close> is set, and the S-meter reading selected by \<open>s\<close>, bits 0 to 3 of
  \<open>b\<close>: \<open>S0\<close> to \<open>S9\<close> for \<open>s \<le> 9\<close>, and \<open>S9+10dB\<close> to
  \<open>S9+60dB\<close>, that is \<open>"S9+" + ((s-9)*10) + "dB"\<close>, for \<open>s\<close> from 10
  to 15. Bytes after the first are not part of the one-byte chunk.
\<close>

theorem getReceiverStatus_decodes:
  assumes "port this \<noteq> None"
  shows "\<exists>this'. getReceiverStatus this (b # rest) =
           Inr (Value \<lparr>smeter_reading =
                        [''S0'', ''S1'', ''S2'', ''S3'', ''S4'', ''S5'', ''S6'', ''S7'', ''S8'',
                         ''S9'', ''S9+10dB'', ''S9+20dB'', ''S9+30dB'', ''S9+40dB'',
                         ''S9+50dB'', ''S9+60dB''] ! (unat b mod 16),
                      squelched = bit b 7\<rparr>, this')"
proof -
  from assms obtain p where "port this = Some p" by auto
  then show ?thesis by (simp add: getReceiverStatus_reply)
qed

theorem getReceiverStatus_decodes_witness:
  "(\<exists>this'. getReceiverStatus ttyUSB0 [0x8F] =
           Inr (Value \<lparr>smeter_reading = ''S9+60dB'', squelched = True\<rparr>, this')) \<and>
   (\<exists>this'. getReceiverStatus ttyUSB0 [0x05] =
           Inr (Value \<lparr>smeter_reading = ''S5'', squelched = False\<rparr>, this'))"
proof -
  have c: "port ttyUSB0 \<noteq> None" by (simp add: ttyUSB0_def)
  have n: "unat (0x8F :: byte) mod 16 = 15" "bit (0x8F :: byte) 7 = True"
    "unat (0x05 :: byte) mod 16 = 5" "bit (0x05 :: byte) 7 = False" by simp_all
  have t: "[''S0'', ''S1'', ''S2'', ''S3'', ''S4'', ''S5'', ''S6'', ''S7'', ''S8'',
            ''S9'', ''S9+10dB'', ''S9+20dB'', ''S9+30dB'', ''S9+40dB'',
            ''S9+50dB'', ''S9+60dB''] ! 15 = ''S9+60dB''"
    "[''S0'', ''S1'', ''S2'', ''S3'', ''S4'', ''S5'', ''S6'', ''S7'', ''S8'',
            ''S9'', ''S9+10dB'', ''S9+20dB'', ''S9+30dB'', ''S9+40dB'',
            ''S9+50dB'', ''S9+60dB''] ! 5 = ''S5''" by simp_all
  show ?thesis
    using getReceiverStatus_decodes [OF c, of "0x8F" "[]"]
      getReceiverStatus_decodes [OF c, of "0x05" "[]"]
    unfolding n t by (rule conjI)
qed

section \<open>Transmitter status\<close>

text \<open>
  C7, as stated, has the byte \<open>0b00000000\<close> decode to \<open>pttActive\<close>,
  \<open>highSWR\<close> and \<open>splitModeOn\<close> all true. With bits 6 and 5 clear the
  masks \<open>b & 0b01000000\<close> and \<open>b & 0b00100000\<close> are zero, and the code
  returns \<open>highSWR\<close> and \<open>splitModeOn\<close> false.
\<close>

theorem getTransmitterStatus_zero_byte:
  "getTransmitterStatus ttyUSB0 [0x00] =
     Inr (Value \<lparr>pttActive = True, highSWR = False, splitModeOn = False\<rparr>,
          ttyUSB0\<lparr>executableCommand := Some [0x00, 0x00, 0x00, 0x00, 0xF7],
                   history := [Pipe 1, Unpipe, Pipe 1, SetTimeout 1000,
                               Write [0x00, 0x00, 0x00, 0x00, 0xF7], Once 1, ClearInterval]\<rparr>)"
  by (simp add: getTransmitterStatus_def execute_def setCommand_def setResponseLength_def
        executeCommand_def getCommand_def ttyUSB0_def toString_hex_def hex_of_byte_def
        hex_char_def hexToBin_def hexValue_def)

text \<open>
  C7, amended. For every one-byte reply \<open>b\<close> on a connected session,
  \<open>getTransmitterStatus\<close> returns \<open>pttActive\<close> true exactly when bit 7 of
  \<open>b\<close> is clear, \<open>highSWR\<close> true exactly when bit 6 is set and
  \<open>splitModeOn\<close> true exactly when bit 5 is set; so the byte \<open>0b00000000\<close>
  decodes to \<open>pttActive\<close> true with \<open>highSWR\<close> and \<open>splitModeOn\<close>
  false, and \<open>0b10000000\<close> to \<open>pttActive\<close> false.
\<close>

theorem getTransmitterStatus_decodes:
  assumes "port this \<noteq> None"
  shows "\<exists>this'. getTransmitterStatus this (b # rest) =
           Inr (Value \<lparr>pttActive = (\<not> bit b 7), highSWR = bit b 6, splitModeOn = bit b 5\<rparr>,
                this')"
proof -
  from assms obtain p where "port this = Some p" by auto
  then show ?thesis by (simp add: getTransmitterStatus_reply)
qed

theorem getTransmitterStatus_decodes_witness:
  "\<exists>this'. getTransmitterStatus ttyUSB0 [0x80] =
           Inr (Value \<lparr>pttActive = False, highSWR = False, splitModeOn = False\<rparr>, this')"
proof -
  have c: "port ttyUSB0 \<noteq> None" by (simp add: ttyUSB0_def)
  have n: "bit (0x80 :: byte) 7 = True" "bit (0x80 :: byte) 6 = False"
    "bit (0x80 :: byte) 5 = False" by simp_all
  show ?thesis
    using getTransmitterStatus_decodes [OF c, of "0x80" "[]"]
    unfolding n by simp
qed

end
